theory Spec2Isabelle
  imports Complex_Main "HOL-Library.AList"
begin

section \<open>Data model of \<^verbatim>\<open>pntk/elements.py\<close>\<close>

text \<open>
  Every \<^verbatim>\<open>Place\<close>, \<^verbatim>\<open>Transition\<close> and \<^verbatim>\<open>Arc\<close> object draws a fresh
  \<^verbatim>\<open>uuid.uuid4()\<close> in its constructor, so the id doubles as the address of the object
  in an explicit store. A Python \<^verbatim>\<open>dict\<close> that the engine iterates is an association
  list in insertion order; \<open>AList.update\<close> is \<^verbatim>\<open>d[k] = v\<close> (an existing key keeps
  its position, a new key goes to the end). A dictionary from ids to the objects bearing these ids
  is the list of its keys. Python integers are \<open>int\<close>; the \<^verbatim>\<open>float\<close> clock of a
  transition is idealised as \<open>real\<close>. A marking dictionary belongs to one place and an
  annotation dictionary is never written by the engine, so both are held by value.
\<close>

type_synonym ident = nat
type_synonym color = string
type_synonym marking = "(color \<times> int) list"

datatype error = KeyError | AttributeError

datatype 'a outcome = Returned 'a | Raised error

datatype node_ref = PlaceRef ident | TransRef ident

datatype obj_ref = NodeObj node_ref | ArcObj ident

datatype py_arg = Node node_ref | OtherObject

datatype direction = PtoT | TtoP

datatype status = Unready | Ready

datatype work_status = Unfiring | Firing

record place =
  p_name :: string
  p_ins :: "(ident \<times> node_ref) list"
  p_outs :: "(ident \<times> node_ref) list"
  p_in_arcs :: "ident list"
  p_out_arcs :: "ident list"
  marking :: marking
  initial_marking :: marking
  processing_time :: real
  p_time :: real

record transition =
  t_name :: string
  t_ins :: "(ident \<times> node_ref) list"
  t_outs :: "(ident \<times> node_ref) list"
  t_in_arcs :: "ident list"
  t_out_arcs :: "ident list"
  status :: status
  work_status :: work_status
  consumption :: real
  t_time :: real
  priority :: int

text \<open>
  The fields that \<^verbatim>\<open>Arc.__init__\<close> sets after the endpoint test. An \<^verbatim>\<open>Arc\<close>
  whose constructor took the failure branch has the attribute \<^verbatim>\<open>id\<close> only: it is
  \<open>None\<close> in the arc store, and reading any other attribute of it raises
  \<^verbatim>\<open>AttributeError\<close>.
\<close>

record arc =
  direction :: direction
  node_in :: node_ref
  node_out :: node_ref
  a_name :: string
  annotation :: marking

text \<open>
  The object store together with the fields of the \<^verbatim>\<open>ColoredPetriNet\<close> object
  (\<^verbatim>\<open>petri_net.py\<close>, \<^verbatim>\<open>__init__\<close>).
\<close>

record net =
  place_heap :: "ident \<Rightarrow> place"
  trans_heap :: "ident \<Rightarrow> transition"
  arc_heap :: "ident \<Rightarrow> arc option"
  places :: "ident list"
  transitions :: "ident list"
  arcs :: "ident list"
  adj :: "((ident \<times> ident) \<times> ident) list"
  name_node :: "(string \<times> obj_ref) list"
  id_name :: "(ident \<times> string) list"
  debug :: bool
  marking_types :: "color list"

text \<open>\<^verbatim>\<open>d[obj.id] = obj\<close> on a dictionary kept as its list of ids.\<close>

definition add_key :: "ident \<Rightarrow> ident list \<Rightarrow> ident list" where
  "add_key k ks = (if k \<in> set ks then ks else ks @ [k])"

fun ref_id :: "node_ref \<Rightarrow> ident" where
  "ref_id (PlaceRef i) = i"
| "ref_id (TransRef i) = i"

fun node_name :: "net \<Rightarrow> node_ref \<Rightarrow> string" where
  "node_name s (PlaceRef i) = p_name (place_heap s i)"
| "node_name s (TransRef i) = t_name (trans_heap s i)"

subsection \<open>Constructors\<close>

text \<open>
  \<^verbatim>\<open>Place.__init__\<close>: the marking is the dictionary passed in, the initial marking a
  key-by-key copy of it.
\<close>

definition copy_dict :: "marking \<Rightarrow> marking" where
  "copy_dict m = fold (\<lambda>kv acc. AList.update (fst kv) (snd kv) acc) m []"

definition Place :: "string \<Rightarrow> marking \<Rightarrow> place" where
  "Place name init =
     \<lparr>p_name = name, p_ins = [], p_outs = [], p_in_arcs = [], p_out_arcs = [],
      marking = init, initial_marking = copy_dict init, processing_time = 0, p_time = 0\<rparr>"

text \<open>\<^verbatim>\<open>Transition.__init__(name, condition=None, time=0.0, priority=0)\<close>; the
  condition is never read by the engine and is left out.\<close>

definition Transition :: "string \<Rightarrow> real \<Rightarrow> int \<Rightarrow> transition" where
  "Transition name tm prio =
     \<lparr>t_name = name, t_ins = [], t_outs = [], t_in_arcs = [], t_out_arcs = [],
      status = Unready, work_status = Unfiring, consumption = tm, t_time = 0, priority = prio\<rparr>"

text \<open>
  \<^verbatim>\<open>Arc.__init__(node1, node2)\<close> with the default annotation \<^verbatim>\<open>{'0': 1}\<close>, the
  only form \<^verbatim>\<open>add_arc\<close> uses. The failure branch returns before any field but
  \<^verbatim>\<open>id\<close> is set.
\<close>

fun Arc :: "net \<Rightarrow> node_ref \<Rightarrow> node_ref \<Rightarrow> arc option" where
  "Arc s (PlaceRef p) (TransRef t) =
     Some \<lparr>direction = PtoT, node_in = PlaceRef p, node_out = TransRef t,
           a_name = node_name s (PlaceRef p) @ ''->'' @ node_name s (TransRef t),
           annotation = [(''0'', 1)]\<rparr>"
| "Arc s (TransRef t) (PlaceRef p) =
     Some \<lparr>direction = TtoP, node_in = TransRef t, node_out = PlaceRef p,
           a_name = node_name s (TransRef t) @ ''->'' @ node_name s (PlaceRef p),
           annotation = [(''0'', 1)]\<rparr>"
| "Arc s n1 n2 = None"

subsection \<open>Methods of \<^verbatim>\<open>Place\<close> and \<^verbatim>\<open>Transition\<close>\<close>

text \<open>\<^verbatim>\<open>Place.initialize\<close>: every key of the initial marking is written back.\<close>

definition initialize :: "place \<Rightarrow> place" where
  "initialize p =
     p\<lparr>marking := fold (\<lambda>kv m. AList.update (fst kv) (snd kv) m) (initial_marking p) (marking p)\<rparr>"

text \<open>\<^verbatim>\<open>Place.set_mark\<close>: a new dictionary, filled key by key.\<close>

definition set_mark :: "place \<Rightarrow> marking \<Rightarrow> place" where
  "set_mark p new_mark = p\<lparr>marking := copy_dict new_mark\<rparr>"


text \<open>\<^verbatim>\<open>Transition.tick(dt)\<close>: the flag returned and the transition as it is left.\<close>

definition Transition_tick :: "transition \<Rightarrow> real \<Rightarrow> bool \<times> transition" where
  "Transition_tick t dt =
     (if work_status t = Firing then
        (if t_time t - dt \<le> 0 then (True, t\<lparr>t_time := 0\<rparr>)
         else (False, t\<lparr>t_time := t_time t - dt\<rparr>))
      else (False, t))"

section \<open>The engine of \<^verbatim>\<open>pntk/petri_net.py\<close>\<close>

text \<open>
  Every operation takes the store and returns the store it leaves, also when it raises: a
  Python exception does not undo the writes made before it.
\<close>

subsection \<open>Readiness\<close>

text \<open>
  The loop of \<^verbatim>\<open>arc_ready\<close> over \<^verbatim>\<open>arc.annotation.keys()\<close>: the first key
  whose count covers its weight answers \<^verbatim>\<open>True\<close>; a key missing from the source
  marking raises \<^verbatim>\<open>KeyError\<close>.
\<close>

fun arc_ready_keys :: "marking \<Rightarrow> marking \<Rightarrow> bool outcome" where
  "arc_ready_keys m [] = Returned False"
| "arc_ready_keys m (kw # rest) =
     (case map_of m (fst kw) of
        None \<Rightarrow> Raised KeyError
      | Some c \<Rightarrow> if c - snd kw \<ge> 0 then Returned True else arc_ready_keys m rest)"

definition arc_ready :: "net \<Rightarrow> ident \<Rightarrow> bool outcome" where
  "arc_ready s a =
     (case arc_heap s a of
        None \<Rightarrow> Raised AttributeError
      | Some ar \<Rightarrow>
          if direction ar = PtoT then
            (case node_in ar of
               PlaceRef p \<Rightarrow> arc_ready_keys (marking (place_heap s p)) (annotation ar)
             | TransRef t \<Rightarrow>
                 if annotation ar = [] then Returned False else Raised AttributeError)
          else Returned False)"

text \<open>The loop of \<^verbatim>\<open>transition_ready_check\<close> over the incoming arcs.\<close>

fun in_arcs_ready :: "net \<Rightarrow> ident list \<Rightarrow> bool outcome" where
  "in_arcs_ready s [] = Returned True"
| "in_arcs_ready s (a # rest) =
     (case arc_ready s a of
        Raised e \<Rightarrow> Raised e
      | Returned b \<Rightarrow> if b then in_arcs_ready s rest else Returned False)"

definition set_status :: "net \<Rightarrow> ident \<Rightarrow> status \<Rightarrow> net" where
  "set_status s t st = s\<lparr>trans_heap := (trans_heap s)(t := (trans_heap s t)\<lparr>status := st\<rparr>)\<rparr>"

definition transition_ready_check :: "net \<Rightarrow> ident \<Rightarrow> bool outcome \<times> net" where
  "transition_ready_check s t =
     (case in_arcs_ready s (t_in_arcs (trans_heap s t)) of
        Raised e \<Rightarrow> (Raised e, s)
      | Returned b \<Rightarrow> (Returned b, set_status s t (if b then Ready else Unready)))"

fun update_loop :: "net \<Rightarrow> ident list \<Rightarrow> unit outcome \<times> net" where
  "update_loop s [] = (Returned (), s)"
| "update_loop s (t # ts) =
     (case transition_ready_check s t of
        (Raised e, s') \<Rightarrow> (Raised e, s')
      | (Returned b, s') \<Rightarrow> update_loop s' ts)"

definition update_ready_transition :: "net \<Rightarrow> unit outcome \<times> net" where
  "update_ready_transition s = update_loop s (transitions s)"

subsection \<open>Token transfer\<close>

text \<open>
  The inner loop of both firing protocols and of \<^verbatim>\<open>tick\<close>,
  \<^verbatim>\<open>for k in node.marking.keys(): node.marking[k] op= arc.annotation[k]\<close>, with
  \<open>op\<close> the subtraction (inputs) or the addition (outputs). The keys are those of the
  marking; one that the annotation lacks raises \<^verbatim>\<open>KeyError\<close> and leaves the counts
  already written.
\<close>

fun transfer_keys ::
  "(int \<Rightarrow> int \<Rightarrow> int) \<Rightarrow> marking \<Rightarrow> color list \<Rightarrow> marking \<Rightarrow> unit outcome \<times> marking" where
  "transfer_keys opr ann [] m = (Returned (), m)"
| "transfer_keys opr ann (k # ks) m =
     (case map_of m k of
        None \<Rightarrow> (Raised KeyError, m)
      | Some c \<Rightarrow>
          (case map_of ann k of
             None \<Rightarrow> (Raised KeyError, m)
           | Some w \<Rightarrow> transfer_keys opr ann ks (AList.update k (opr c w) m)))"

definition set_marking :: "net \<Rightarrow> ident \<Rightarrow> marking \<Rightarrow> net" where
  "set_marking s p m = s\<lparr>place_heap := (place_heap s)(p := (place_heap s p)\<lparr>marking := m\<rparr>)\<rparr>"

text \<open>One arc: \<open>sel\<close> is \<open>node_in\<close> for the inputs and \<open>node_out\<close> for the outputs.\<close>

definition transfer_arc ::
  "(int \<Rightarrow> int \<Rightarrow> int) \<Rightarrow> (arc \<Rightarrow> node_ref) \<Rightarrow> net \<Rightarrow> ident \<Rightarrow> unit outcome \<times> net" where
  "transfer_arc opr sel s a =
     (case arc_heap s a of
        None \<Rightarrow> (Raised AttributeError, s)
      | Some ar \<Rightarrow>
          (case sel ar of
             TransRef t \<Rightarrow> (Raised AttributeError, s)
           | PlaceRef p \<Rightarrow>
               (case transfer_keys opr (annotation ar)
                       (map fst (marking (place_heap s p))) (marking (place_heap s p)) of
                  (r, m') \<Rightarrow> (r, set_marking s p m'))))"

fun transfer_arcs ::
  "(int \<Rightarrow> int \<Rightarrow> int) \<Rightarrow> (arc \<Rightarrow> node_ref) \<Rightarrow> net \<Rightarrow> ident list \<Rightarrow> unit outcome \<times> net" where
  "transfer_arcs opr sel s [] = (Returned (), s)"
| "transfer_arcs opr sel s (a # rest) =
     (case transfer_arc opr sel s a of
        (Raised e, s') \<Rightarrow> (Raised e, s')
      | (Returned u, s') \<Rightarrow> transfer_arcs opr sel s' rest)"

definition consume_inputs :: "net \<Rightarrow> ident \<Rightarrow> unit outcome \<times> net" where
  "consume_inputs s t = transfer_arcs (-) node_in s (t_in_arcs (trans_heap s t))"

definition produce_outputs :: "net \<Rightarrow> ident \<Rightarrow> unit outcome \<times> net" where
  "produce_outputs s t = transfer_arcs (+) node_out s (t_out_arcs (trans_heap s t))"

subsection \<open>Construction\<close>

definition add_node :: "net \<Rightarrow> py_arg \<Rightarrow> unit outcome \<times> net" where
  "add_node s node =
     (case node of
        Node (PlaceRef p) \<Rightarrow>
          update_ready_transition
            (s\<lparr>places := add_key p (places s),
               name_node := AList.update (p_name (place_heap s p)) (NodeObj (PlaceRef p)) (name_node s),
               id_name := AList.update p (p_name (place_heap s p)) (id_name s)\<rparr>)
      | Node (TransRef t) \<Rightarrow>
          update_ready_transition
            (s\<lparr>transitions := add_key t (transitions s),
               name_node := AList.update (t_name (trans_heap s t)) (NodeObj (TransRef t)) (name_node s),
               id_name := AList.update t (t_name (trans_heap s t)) (id_name s)\<rparr>)
      | OtherObject \<Rightarrow> update_ready_transition s)"

text \<open>The four wiring assignments of \<^verbatim>\<open>add_arc\<close>, in the order of the source.\<close>

fun set_outs :: "net \<Rightarrow> node_ref \<Rightarrow> node_ref \<Rightarrow> net" where
  "set_outs s (PlaceRef p) n2 =
     s\<lparr>place_heap := (place_heap s)(p := (place_heap s p)
         \<lparr>p_outs := AList.update (ref_id n2) n2 (p_outs (place_heap s p))\<rparr>)\<rparr>"
| "set_outs s (TransRef t) n2 =
     s\<lparr>trans_heap := (trans_heap s)(t := (trans_heap s t)
         \<lparr>t_outs := AList.update (ref_id n2) n2 (t_outs (trans_heap s t))\<rparr>)\<rparr>"

fun set_out_arcs :: "net \<Rightarrow> node_ref \<Rightarrow> ident \<Rightarrow> net" where
  "set_out_arcs s (PlaceRef p) a =
     s\<lparr>place_heap := (place_heap s)(p := (place_heap s p)
         \<lparr>p_out_arcs := add_key a (p_out_arcs (place_heap s p))\<rparr>)\<rparr>"
| "set_out_arcs s (TransRef t) a =
     s\<lparr>trans_heap := (trans_heap s)(t := (trans_heap s t)
         \<lparr>t_out_arcs := add_key a (t_out_arcs (trans_heap s t))\<rparr>)\<rparr>"

fun set_ins :: "net \<Rightarrow> node_ref \<Rightarrow> node_ref \<Rightarrow> net" where
  "set_ins s (PlaceRef p) n1 =
     s\<lparr>place_heap := (place_heap s)(p := (place_heap s p)
         \<lparr>p_ins := AList.update (ref_id n1) n1 (p_ins (place_heap s p))\<rparr>)\<rparr>"
| "set_ins s (TransRef t) n1 =
     s\<lparr>trans_heap := (trans_heap s)(t := (trans_heap s t)
         \<lparr>t_ins := AList.update (ref_id n1) n1 (t_ins (trans_heap s t))\<rparr>)\<rparr>"

fun set_in_arcs :: "net \<Rightarrow> node_ref \<Rightarrow> ident \<Rightarrow> net" where
  "set_in_arcs s (PlaceRef p) a =
     s\<lparr>place_heap := (place_heap s)(p := (place_heap s p)
         \<lparr>p_in_arcs := add_key a (p_in_arcs (place_heap s p))\<rparr>)\<rparr>"
| "set_in_arcs s (TransRef t) a =
     s\<lparr>trans_heap := (trans_heap s)(t := (trans_heap s t)
         \<lparr>t_in_arcs := add_key a (t_in_arcs (trans_heap s t))\<rparr>)\<rparr>"

text \<open>
  The state of \<^verbatim>\<open>add_arc\<close> after \<^verbatim>\<open>node2.in_arcs[arc.id] = arc\<close> (source lines
  62 to 67); \<open>aid\<close> is the id that the constructor of the new arc drew.
\<close>

definition wire_arc :: "net \<Rightarrow> ident \<Rightarrow> node_ref \<Rightarrow> node_ref \<Rightarrow> net" where
  "wire_arc s aid node1 node2 =
     (let s1 = s\<lparr>arc_heap := (arc_heap s)(aid := Arc s node1 node2), arcs := add_key aid (arcs s)\<rparr>;
          s2 = set_outs s1 node1 node2;
          s3 = set_out_arcs s2 node1 aid;
          s4 = set_ins s3 node2 node1
      in set_in_arcs s4 node2 aid)"

definition add_arc :: "net \<Rightarrow> ident \<Rightarrow> node_ref \<Rightarrow> node_ref \<Rightarrow> unit outcome \<times> net" where
  "add_arc s aid node1 node2 =
     (let s5 = wire_arc s aid node1 node2 in
      case arc_heap s5 aid of
        None \<Rightarrow> (Raised AttributeError, s5)
      | Some ar \<Rightarrow>
          update_ready_transition
            (s5\<lparr>name_node := AList.update (a_name ar) (ArcObj aid) (name_node s5),
                id_name := AList.update aid (a_name ar) (id_name s5),
                adj := AList.update (ref_id node1, ref_id node2) aid (adj s5)\<rparr>))"

subsection \<open>Firing\<close>

definition fire_transition :: "net \<Rightarrow> ident \<Rightarrow> bool outcome \<times> net" where
  "fire_transition s t =
     (if t \<notin> set (transitions s) then (Returned False, s)
      else
        (case transition_ready_check s t of
           (Raised e, s1) \<Rightarrow> (Raised e, s1)
         | (Returned ok, s1) \<Rightarrow>
             if \<not> ok then (Returned False, s1)
             else
               (case consume_inputs s1 t of
                  (Raised e, s2) \<Rightarrow> (Raised e, s2)
                | (Returned u, s2) \<Rightarrow>
                    (case produce_outputs s2 t of
                       (Raised e, s3) \<Rightarrow> (Raised e, s3)
                     | (Returned u', s3) \<Rightarrow>
                         (case update_ready_transition s3 of
                            (Raised e, s4) \<Rightarrow> (Raised e, s4)
                          | (Returned u'', s4) \<Rightarrow> (Returned True, s4))))))"

definition on_fire_transition :: "net \<Rightarrow> ident \<Rightarrow> bool outcome \<times> net" where
  "on_fire_transition s t =
     (if t \<notin> set (transitions s) then (Returned False, s)
      else
        (case transition_ready_check s t of
           (Raised e, s1) \<Rightarrow> (Raised e, s1)
         | (Returned ok, s1) \<Rightarrow>
             if \<not> ok then (Returned False, s1)
             else if work_status (trans_heap s1 t) = Firing then (Returned False, s1)
             else
               (case consume_inputs s1 t of
                  (Raised e, s2) \<Rightarrow> (Raised e, s2)
                | (Returned u, s2) \<Rightarrow>
                    (Returned True,
                     s2\<lparr>trans_heap := (trans_heap s2)(t := (trans_heap s2 t)
                          \<lparr>work_status := Firing, t_time := consumption (trans_heap s2 t)\<rparr>)\<rparr>))))"

subsection \<open>Time\<close>

fun tick_loop :: "net \<Rightarrow> real \<Rightarrow> ident list \<Rightarrow> string list \<Rightarrow> string list outcome \<times> net" where
  "tick_loop s dt [] changed = (Returned changed, s)"
| "tick_loop s dt (t # ts) changed =
     (case Transition_tick (trans_heap s t) dt of
        (f, tr) \<Rightarrow>
          (let s1 = s\<lparr>trans_heap := (trans_heap s)(t := tr)\<rparr> in
           if f then
             (case produce_outputs s1 t of
                (Raised e, s2) \<Rightarrow> (Raised e, s2)
              | (Returned u, s2) \<Rightarrow>
                  (case update_ready_transition
                          (s2\<lparr>trans_heap := (trans_heap s2)(t := (trans_heap s2 t)
                                \<lparr>work_status := Unfiring\<rparr>)\<rparr>) of
                     (Raised e, s3) \<Rightarrow> (Raised e, s3)
                   | (Returned u', s3) \<Rightarrow> tick_loop s3 dt ts (changed @ [t_name tr])))
           else tick_loop s1 dt ts changed))"

definition tick :: "net \<Rightarrow> real \<Rightarrow> string list outcome \<times> net" where
  "tick s dt = tick_loop s dt (transitions s) []"

subsection \<open>Reset\<close>

definition reset_net :: "net \<Rightarrow> net" where
  "reset_net s =
     fold (\<lambda>p s'. s'\<lparr>place_heap := (place_heap s')(p := initialize (place_heap s' p))\<rparr>) (places s) s"

definition reset :: "net \<Rightarrow> unit outcome \<times> net" where
  "reset s = update_ready_transition (reset_net s)"

section \<open>Predicates and example nets\<close>

subsection \<open>What an operation leaves alone\<close>

text \<open>Two transition objects that agree on every attribute but the cached \<open>status\<close>.\<close>

definition same_transition :: "transition \<Rightarrow> transition \<Rightarrow> bool" where
  "same_transition x y =
     (t_name y = t_name x \<and> t_ins y = t_ins x \<and> t_outs y = t_outs x \<and>
      t_in_arcs y = t_in_arcs x \<and> t_out_arcs y = t_out_arcs x \<and>
      work_status y = work_status x \<and> consumption y = consumption x \<and>
      t_time y = t_time x \<and> priority y = priority x)"

text \<open>Two stores that agree everywhere but on the cached \<open>status\<close> of transitions.\<close>

definition same_but_status :: "net \<Rightarrow> net \<Rightarrow> bool" where
  "same_but_status s s' =
     (place_heap s' = place_heap s \<and> arc_heap s' = arc_heap s \<and> places s' = places s \<and>
      transitions s' = transitions s \<and> arcs s' = arcs s \<and> adj s' = adj s \<and>
      name_node s' = name_node s \<and> id_name s' = id_name s \<and> debug s' = debug s \<and>
      marking_types s' = marking_types s \<and>
      (\<forall>u. same_transition (trans_heap s u) (trans_heap s' u)))"


subsection \<open>The net of the scenarios\<close>

text \<open>
  \<^verbatim>\<open>ColoredPetriNet.__init__\<close>: all collections empty. A store address that no
  constructor has filled yet holds a blank object; nothing refers to it.
\<close>

definition empty_net :: net where
  "empty_net =
     \<lparr>place_heap = (\<lambda>i. Place [] []), trans_heap = (\<lambda>i. Transition [] 0 0),
      arc_heap = (\<lambda>i. None), places = [], transitions = [], arcs = [], adj = [],
      name_node = [], id_name = [], debug = False, marking_types = []\<rparr>"

text \<open>A caller's \<^verbatim>\<open>Place(...)\<close> and \<^verbatim>\<open>Transition(...)\<close>: the new object enters the store
  under its id.\<close>

definition new_place :: "net \<Rightarrow> ident \<Rightarrow> place \<Rightarrow> net" where
  "new_place s i p = s\<lparr>place_heap := (place_heap s)(i := p)\<rparr>"

definition new_transition :: "net \<Rightarrow> ident \<Rightarrow> transition \<Rightarrow> net" where
  "new_transition s i t = s\<lparr>trans_heap := (trans_heap s)(i := t)\<rparr>"

text \<open>
  A caller's assignment \<^verbatim>\<open>arc.annotation = ann\<close>: \<^verbatim>\<open>add_arc\<close> has no parameter for
  the weights, so this is how an arc gets an annotation other than the default.
\<close>

definition set_annotation :: "net \<Rightarrow> ident \<Rightarrow> marking \<Rightarrow> net" where
  "set_annotation s a ann =
     (case arc_heap s a of None \<Rightarrow> s
      | Some ar \<Rightarrow> s\<lparr>arc_heap := (arc_heap s)(a := Some (ar\<lparr>annotation := ann\<rparr>))\<rparr>)"

text \<open>
  Places \<open>P1\<close> (id 1, marking \<open>{red: 3}\<close>) and \<open>P2\<close> (id 2, marking \<open>{red: 0}\<close>),
  transition \<open>T1\<close> (id 3) with consumption \<open>D\<close>, arcs \<open>P1\<rightarrow>T1\<close> (id 4) and
  \<open>T1\<rightarrow>P2\<close> (id 5), both given the annotation \<open>{red: 1}\<close> after \<^verbatim>\<open>add_arc\<close>.
\<close>

definition scenario_nodes :: "real \<Rightarrow> net" where
  "scenario_nodes D =
     (let s1 = snd (add_node (new_place empty_net 1 (Place ''P1'' [(''red'', 3)])) (Node (PlaceRef 1)));
          s2 = snd (add_node (new_place s1 2 (Place ''P2'' [(''red'', 0)])) (Node (PlaceRef 2)))
      in snd (add_node (new_transition s2 3 (Transition ''T1'' D 0)) (Node (TransRef 3))))"

definition scenario_net :: "real \<Rightarrow> net" where
  "scenario_net D =
     (let s1 = set_annotation (snd (add_arc (scenario_nodes D) 4 (PlaceRef 1) (TransRef 3))) 4 [(''red'', 1)]
      in set_annotation (snd (add_arc s1 5 (TransRef 3) (PlaceRef 2))) 5 [(''red'', 1)])"



text \<open>The same net written out.\<close>

definition scenario_explicit :: "real \<Rightarrow> net" where
  "scenario_explicit D =
    \<lparr>place_heap = (\<lambda>i. Place [] [])
       (1 := \<lparr>p_name = ''P1'', p_ins = [], p_outs = [(3, TransRef 3)], p_in_arcs = [],
              p_out_arcs = [4], marking = [(''red'', 3)], initial_marking = [(''red'', 3)],
              processing_time = 0, p_time = 0\<rparr>,
        2 := \<lparr>p_name = ''P2'', p_ins = [(3, TransRef 3)], p_outs = [], p_in_arcs = [5],
              p_out_arcs = [], marking = [(''red'', 0)], initial_marking = [(''red'', 0)],
              processing_time = 0, p_time = 0\<rparr>),
     trans_heap = (\<lambda>i. Transition [] 0 0)
       (3 := \<lparr>t_name = ''T1'', t_ins = [(1, PlaceRef 1)], t_outs = [(2, PlaceRef 2)],
              t_in_arcs = [4], t_out_arcs = [5], status = Ready, work_status = Unfiring,
              consumption = D, t_time = 0, priority = 0\<rparr>),
     arc_heap = (\<lambda>i. None)
       (4 := Some \<lparr>direction = PtoT, node_in = PlaceRef 1, node_out = TransRef 3,
                   a_name = ''P1->T1'', annotation = [(''red'', 1)]\<rparr>,
        5 := Some \<lparr>direction = TtoP, node_in = TransRef 3, node_out = PlaceRef 2,
                   a_name = ''T1->P2'', annotation = [(''red'', 1)]\<rparr>),
     places = [1, 2], transitions = [3], arcs = [4, 5],
     adj = [((1, 3), 4), ((3, 2), 5)],
     name_node = [(''P1'', NodeObj (PlaceRef 1)), (''P2'', NodeObj (PlaceRef 2)),
                  (''T1'', NodeObj (TransRef 3)), (''P1->T1'', ArcObj 4), (''T1->P2'', ArcObj 5)],
     id_name = [(1, ''P1''), (2, ''P2''), (3, ''T1''), (4, ''P1->T1''), (5, ''T1->P2'')],
     debug = False, marking_types = []\<rparr>"


text \<open>The store after \<open>n\<close> calls of \<^verbatim>\<open>fire_transition\<close> on the same transition.\<close>

definition fired :: "net \<Rightarrow> ident \<Rightarrow> nat \<Rightarrow> net" where
  "fired s t n = ((\<lambda>s'. snd (fire_transition s' t)) ^^ n) s"


subsection \<open>Further example nets\<close>

text \<open>
  One place \<open>P\<close> (id 1) holding one token of colour \<open>0\<close>, one transition \<open>T\<close> (id 2), and
  \<^verbatim>\<open>add_arc(P, T)\<close> called twice (arcs 3 and 4): every call here is an engine operation
  and none raises.
\<close>

definition double_nodes :: net where
  "double_nodes =
     (let s1 = snd (add_node (new_place empty_net 1 (Place ''P'' [(''0'', 1)])) (Node (PlaceRef 1)))
      in snd (add_node (new_transition s1 2 (Transition ''T'' 0 0)) (Node (TransRef 2))))"

definition double_arc_net :: net where
  "double_arc_net =
     snd (add_arc (snd (add_arc double_nodes 3 (PlaceRef 1) (TransRef 2))) 4
            (PlaceRef 1) (TransRef 2))"

definition double_explicit :: net where
  "double_explicit =
    \<lparr>place_heap = (\<lambda>i. Place [] [])
       (1 := \<lparr>p_name = ''P'', p_ins = [], p_outs = [(2, TransRef 2)], p_in_arcs = [],
              p_out_arcs = [3, 4], marking = [(''0'', 1)], initial_marking = [(''0'', 1)],
              processing_time = 0, p_time = 0\<rparr>),
     trans_heap = (\<lambda>i. Transition [] 0 0)
       (2 := \<lparr>t_name = ''T'', t_ins = [(1, PlaceRef 1)], t_outs = [],
              t_in_arcs = [3, 4], t_out_arcs = [], status = Ready, work_status = Unfiring,
              consumption = 0, t_time = 0, priority = 0\<rparr>),
     arc_heap = (\<lambda>i. None)
       (3 := Some \<lparr>direction = PtoT, node_in = PlaceRef 1, node_out = TransRef 2,
                   a_name = ''P->T'', annotation = [(''0'', 1)]\<rparr>,
        4 := Some \<lparr>direction = PtoT, node_in = PlaceRef 1, node_out = TransRef 2,
                   a_name = ''P->T'', annotation = [(''0'', 1)]\<rparr>),
     places = [1], transitions = [2], arcs = [3, 4],
     adj = [((1, 2), 4)],
     name_node = [(''P'', NodeObj (PlaceRef 1)), (''T'', NodeObj (TransRef 2)),
                  (''P->T'', ArcObj 4)],
     id_name = [(1, ''P''), (2, ''T''), (3, ''P->T''), (4, ''P->T'')],
     debug = False, marking_types = []\<rparr>"

text \<open>
  One place with marking \<open>{red: 1, blue: 0}\<close> and one arc into \<open>T\<close> that is given the
  annotation \<open>{red: 1, blue: 1}\<close>.
\<close>

definition two_color_net :: net where
  "two_color_net =
     (let s1 = snd (add_node (new_place empty_net 1 (Place ''P'' [(''red'', 1), (''blue'', 0)]))
                      (Node (PlaceRef 1)));
          s2 = snd (add_node (new_transition s1 2 (Transition ''T'' 0 0)) (Node (TransRef 2)))
      in set_annotation (snd (add_arc s2 3 (PlaceRef 1) (TransRef 2))) 3
           [(''red'', 1), (''blue'', 1)])"

definition two_color_explicit :: net where
  "two_color_explicit =
    \<lparr>place_heap = (\<lambda>i. Place [] [])
       (1 := \<lparr>p_name = ''P'', p_ins = [], p_outs = [(2, TransRef 2)], p_in_arcs = [],
              p_out_arcs = [3], marking = [(''red'', 1), (''blue'', 0)],
              initial_marking = [(''red'', 1), (''blue'', 0)],
              processing_time = 0, p_time = 0\<rparr>),
     trans_heap = (\<lambda>i. Transition [] 0 0)
       (2 := \<lparr>t_name = ''T'', t_ins = [(1, PlaceRef 1)], t_outs = [],
              t_in_arcs = [3], t_out_arcs = [], status = Ready, work_status = Unfiring,
              consumption = 0, t_time = 0, priority = 0\<rparr>),
     arc_heap = (\<lambda>i. None)
       (3 := Some \<lparr>direction = PtoT, node_in = PlaceRef 1, node_out = TransRef 2,
                   a_name = ''P->T'', annotation = [(''red'', 1), (''blue'', 1)]\<rparr>),
     places = [1], transitions = [2], arcs = [3],
     adj = [((1, 2), 3)],
     name_node = [(''P'', NodeObj (PlaceRef 1)), (''T'', NodeObj (TransRef 2)),
                  (''P->T'', ArcObj 3)],
     id_name = [(1, ''P''), (2, ''T''), (3, ''P->T'')],
     debug = False, marking_types = []\<rparr>"

text \<open>The scenario net with consumption \<open>5\<close> and a single token in \<open>P1\<close>.\<close>

definition one_token_net :: net where
  "one_token_net = set_marking (scenario_net 5) 1 [(''red'', 1)]"










subsection \<open>What the annotations dictate\<close>










section \<open>Frame properties\<close>

lemma set_status_fields [simp]:
  "place_heap (set_status s t st) = place_heap s"
  "arc_heap (set_status s t st) = arc_heap s"
  "places (set_status s t st) = places s"
  "transitions (set_status s t st) = transitions s"
  "arcs (set_status s t st) = arcs s"
  "adj (set_status s t st) = adj s"
  "name_node (set_status s t st) = name_node s"
  "id_name (set_status s t st) = id_name s"
  by (simp_all add: set_status_def)

lemma set_status_trans [simp]:
  "t_name (trans_heap (set_status s t st) u) = t_name (trans_heap s u)"
  "t_in_arcs (trans_heap (set_status s t st) u) = t_in_arcs (trans_heap s u)"
  "t_out_arcs (trans_heap (set_status s t st) u) = t_out_arcs (trans_heap s u)"
  "work_status (trans_heap (set_status s t st) u) = work_status (trans_heap s u)"
  "t_time (trans_heap (set_status s t st) u) = t_time (trans_heap s u)"
  "consumption (trans_heap (set_status s t st) u) = consumption (trans_heap s u)"
  "status (trans_heap (set_status s t st) u) = (if u = t then st else status (trans_heap s u))"
  by (simp_all add: set_status_def)

lemma set_marking_fields [simp]:
  "trans_heap (set_marking s p m) = trans_heap s"
  "arc_heap (set_marking s p m) = arc_heap s"
  "places (set_marking s p m) = places s"
  "transitions (set_marking s p m) = transitions s"
  "marking (place_heap (set_marking s p m) q) = (if q = p then m else marking (place_heap s q))"
  "initial_marking (place_heap (set_marking s p m) q) = initial_marking (place_heap s q)"
  by (simp_all add: set_marking_def)

text \<open>Readiness reads the markings and the arcs only.\<close>

lemma arc_ready_cong:
  "place_heap s' = place_heap s \<Longrightarrow> arc_heap s' = arc_heap s \<Longrightarrow> arc_ready s' a = arc_ready s a"
  by (simp add: arc_ready_def split: option.splits node_ref.splits)

lemma in_arcs_ready_cong:
  "place_heap s' = place_heap s \<Longrightarrow> arc_heap s' = arc_heap s \<Longrightarrow>
   in_arcs_ready s' as = in_arcs_ready s as"
proof (induction as)
  case Nil
  show ?case by simp
next
  case (Cons a as)
  have "arc_ready s' a = arc_ready s a"
    using Cons.prems by (rule arc_ready_cong)
  with Cons show ?case by (simp split: outcome.splits)
qed

lemma transition_ready_check_Returned:
  "in_arcs_ready s (t_in_arcs (trans_heap s t)) = Returned b \<Longrightarrow>
   transition_ready_check s t = (Returned b, set_status s t (if b then Ready else Unready))"
  by (simp add: transition_ready_check_def)

lemma transition_ready_check_Raised:
  "in_arcs_ready s (t_in_arcs (trans_heap s t)) = Raised e \<Longrightarrow>
   transition_ready_check s t = (Raised e, s)"
  by (simp add: transition_ready_check_def)

lemma same_but_status_refl: "same_but_status s s"
  by (simp add: same_but_status_def same_transition_def)


lemma same_but_status_set_status: "same_but_status s (set_status s t st)"
  by (simp add: same_but_status_def same_transition_def set_status_def)

lemma same_but_statusD:
  assumes "same_but_status s s'"
  shows "place_heap s' = place_heap s" "arc_heap s' = arc_heap s"
    "places s' = places s" "transitions s' = transitions s" "arcs s' = arcs s"
    "adj s' = adj s" "name_node s' = name_node s" "id_name s' = id_name s"
    "t_name (trans_heap s' u) = t_name (trans_heap s u)"
    "t_in_arcs (trans_heap s' u) = t_in_arcs (trans_heap s u)"
    "t_out_arcs (trans_heap s' u) = t_out_arcs (trans_heap s u)"
    "work_status (trans_heap s' u) = work_status (trans_heap s u)"
    "t_time (trans_heap s' u) = t_time (trans_heap s u)"
    "consumption (trans_heap s' u) = consumption (trans_heap s u)"
  using assms by (simp_all add: same_but_status_def same_transition_def)

lemma transition_ready_check_frame:
  assumes "transition_ready_check s t = (r, s')"
  shows "same_but_status s s'"
proof (cases "in_arcs_ready s (t_in_arcs (trans_heap s t))")
  case (Returned b)
  from transition_ready_check_Returned [OF this] assms
  have "s' = set_status s t (if b then Ready else Unready)" by simp
  then show ?thesis by (simp add: same_but_status_set_status)
next
  case (Raised e)
  from transition_ready_check_Raised [OF this] assms have "s' = s" by simp
  then show ?thesis by (simp add: same_but_status_refl)
qed




section \<open>Token transfer\<close>






















section \<open>Time advancement\<close>


















section \<open>Evaluating the example nets\<close>

lemmas engine_defs = empty_net_def new_place_def new_transition_def set_annotation_def
  scenario_nodes_def scenario_net_def add_node_def add_arc_def wire_arc_def
  update_ready_transition_def transition_ready_check_def arc_ready_def set_status_def
  Place_def Transition_def copy_dict_def add_key_def fire_transition_def on_fire_transition_def
  consume_inputs_def produce_outputs_def transfer_arc_def set_marking_def tick_def
  Transition_tick_def reset_def reset_net_def initialize_def Let_def

lemma scenario_net_explicit: "scenario_net D = scenario_explicit D"
  by (simp add: engine_defs scenario_explicit_def fun_eq_iff)

section \<open>Readiness of an arc\<close>

lemma arc_ready_keys_iff:
  assumes "fst ` set ann \<subseteq> fst ` set m"
  shows "arc_ready_keys m ann =
         Returned (\<exists>kw \<in> set ann. \<exists>c. map_of m (fst kw) = Some c \<and> snd kw \<le> c)"
  using assms
proof (induction ann)
  case Nil
  show ?case by simp
next
  case (Cons kw ann)
  from Cons.prems have "fst kw \<in> fst ` set m" by simp
  then obtain c where c: "map_of m (fst kw) = Some c"
    by (metis domD dom_map_of_conv_image_fst)
  from Cons have ih: "arc_ready_keys m ann =
      Returned (\<exists>kw \<in> set ann. \<exists>c. map_of m (fst kw) = Some c \<and> snd kw \<le> c)" by simp
  show ?case by (simp add: c ih)
qed

lemma distinct_map_of_iff:
  "distinct (map fst ann) \<Longrightarrow>
   (\<exists>kw \<in> set ann. \<exists>c. map_of m (fst kw) = Some c \<and> snd kw \<le> c) =
   (\<exists>k w c. map_of ann k = Some w \<and> map_of m k = Some c \<and> w \<le> (c::int))"
  apply (rule iffI)
   apply (metis map_of_eq_Some_iff prod.collapse)
  apply (metis fst_conv map_of_SomeD snd_conv)
  done

text \<open>
  Claim C3. For a \<open>PtoT\<close> arc whose annotation keys all occur in the marking of its source
  place, \<^verbatim>\<open>arc_ready\<close> returns whether some colour of the annotation has a count in the
  source marking of at least the annotated weight: one colour is enough. For a \<open>TtoP\<close>
  arc it returns \<open>False\<close>.
\<close>

theorem arc_ready_any_color:
  assumes "arc_heap s a = Some ar"
  shows "(direction ar = PtoT \<and> node_in ar = PlaceRef p \<and> distinct (map fst (annotation ar)) \<and>
          fst ` set (annotation ar) \<subseteq> fst ` set (marking (place_heap s p)) \<longrightarrow>
          arc_ready s a =
            Returned (\<exists>k w c. map_of (annotation ar) k = Some w \<and>
                              map_of (marking (place_heap s p)) k = Some c \<and> w \<le> c)) \<and>
         (direction ar = TtoP \<longrightarrow> arc_ready s a = Returned False)"
  using assms
  by (simp add: arc_ready_def arc_ready_keys_iff distinct_map_of_iff)


text \<open>Both arcs of the scenario net: \<open>P1\<rightarrow>T1\<close> is ready, \<open>T1\<rightarrow>P2\<close> is not a gate.\<close>

theorem arc_ready_any_color_witness:
  "arc_heap (scenario_net 0) 4 =
     Some \<lparr>direction = PtoT, node_in = PlaceRef 1, node_out = TransRef 3,
           a_name = ''P1->T1'', annotation = [(''red'', 1)]\<rparr> \<and>
   fst ` set [(''red'', 1::int)] \<subseteq> fst ` set (marking (place_heap (scenario_net 0) 1)) \<and>
   arc_ready (scenario_net 0) 4 = Returned True \<and>
   arc_heap (scenario_net 0) 5 =
     Some \<lparr>direction = TtoP, node_in = TransRef 3, node_out = PlaceRef 2,
           a_name = ''T1->P2'', annotation = [(''red'', 1)]\<rparr> \<and>
   arc_ready (scenario_net 0) 5 = Returned False"
  using
    arc_ready_any_color [of "scenario_net 0" 4
      "\<lparr>direction = PtoT, node_in = PlaceRef 1, node_out = TransRef 3,
        a_name = ''P1->T1'', annotation = [(''red'', 1)]\<rparr>" 1]
    arc_ready_any_color [of "scenario_net 0" 5
      "\<lparr>direction = TtoP, node_in = TransRef 3, node_out = PlaceRef 2,
        a_name = ''T1->P2'', annotation = [(''red'', 1)]\<rparr>" 2]
  by (simp add: scenario_net_explicit scenario_explicit_def)

section \<open>Arcs registered by \<^verbatim>\<open>add_arc\<close>\<close>









section \<open>A firing that fails\<close>

lemma fire_transition_False:
  assumes "fire_transition s t = (Returned False, s')"
  shows "same_but_status s s'"
proof (cases "t \<in> set (transitions s)")
  case False
  with assms have "s' = s" by (simp add: fire_transition_def)
  then show ?thesis by (simp add: same_but_status_refl)
next
  case True
  obtain r1 s1 where c: "transition_ready_check s t = (r1, s1)" by force
  then have f: "same_but_status s s1" by (rule transition_ready_check_frame)
  from assms True c have "s' = s1"
    by (simp add: fire_transition_def split: outcome.splits if_splits prod.splits)
  with f show ?thesis by simp
qed

lemma on_fire_transition_False:
  assumes "on_fire_transition s t = (Returned False, s')"
  shows "same_but_status s s'"
proof (cases "t \<in> set (transitions s)")
  case False
  with assms have "s' = s" by (simp add: on_fire_transition_def)
  then show ?thesis by (simp add: same_but_status_refl)
next
  case True
  obtain r1 s1 where c: "transition_ready_check s t = (r1, s1)" by force
  then have f: "same_but_status s s1" by (rule transition_ready_check_frame)
  from assms True c have "s' = s1"
    by (simp add: on_fire_transition_def split: outcome.splits if_splits prod.splits)
  with f show ?thesis by simp
qed

text \<open>
  Claim C7. When \<^verbatim>\<open>fire_transition\<close> or \<^verbatim>\<open>on_fire_transition\<close> returns \<open>False\<close>,
  the marking of every place and the work status and remaining time of every transition are as
  before the call. The store differs from the one before at most in the cached readiness
  \<open>status\<close>, which the readiness check of the call has rewritten.
\<close>

theorem failed_firing_mutates_nothing:
  assumes "fire_transition s t = (Returned False, s') \<or>
           on_fire_transition s t = (Returned False, s')"
  shows "place_heap s' = place_heap s \<and>
         (\<forall>u. work_status (trans_heap s' u) = work_status (trans_heap s u) \<and>
              t_time (trans_heap s' u) = t_time (trans_heap s u)) \<and>
         same_but_status s s'"
proof -
  from assms have f: "same_but_status s s'"
    using fire_transition_False on_fire_transition_False by blast
  then show ?thesis by (simp add: same_but_statusD [OF f])
qed


text \<open>The scenario net with \<open>P1\<close> emptied: \<open>T1\<close> is found but not ready.\<close>

theorem failed_firing_mutates_nothing_witness:
  "(fire_transition (set_marking (scenario_net 0) 1 [(''red'', 0)]) 3 =
      (Returned False, set_status (set_marking (scenario_net 0) 1 [(''red'', 0)]) 3 Unready) \<or>
    on_fire_transition (set_marking (scenario_net 0) 1 [(''red'', 0)]) 3 =
      (Returned False, set_status (set_marking (scenario_net 0) 1 [(''red'', 0)]) 3 Unready)) \<and>
   place_heap (set_status (set_marking (scenario_net 0) 1 [(''red'', 0)]) 3 Unready) =
     place_heap (set_marking (scenario_net 0) 1 [(''red'', 0)])"
proof -
  have "fire_transition (set_marking (scenario_net 0) 1 [(''red'', 0)]) 3 =
      (Returned False, set_status (set_marking (scenario_net 0) 1 [(''red'', 0)]) 3 Unready)"
    by (simp add: scenario_net_explicit scenario_explicit_def fire_transition_def
        transition_ready_check_def arc_ready_def set_marking_def)
  then show ?thesis
    using failed_firing_mutates_nothing
      [of "set_marking (scenario_net 0) 1 [(''red'', 0)]" 3
          "set_status (set_marking (scenario_net 0) 1 [(''red'', 0)]) 3 Unready"]
    by simp
qed

section \<open>Scenario A\<close>

text \<open>
  Claim C5. In the scenario net with consumption \<open>0\<close>, three successive calls of
  \<^verbatim>\<open>fire_transition(T1)\<close> return \<open>True\<close> and leave \<open>P1 = {red: 0}\<close> and
  \<open>P2 = {red: 3}\<close>; the fourth call returns \<open>False\<close> and changes no marking.
\<close>

theorem scenario_A:
  "fst (fire_transition (scenario_net 0) 3) = Returned True \<and>
   fst (fire_transition (fired (scenario_net 0) 3 1) 3) = Returned True \<and>
   fst (fire_transition (fired (scenario_net 0) 3 2) 3) = Returned True \<and>
   marking (place_heap (fired (scenario_net 0) 3 3) 1) = [(''red'', 0)] \<and>
   marking (place_heap (fired (scenario_net 0) 3 3) 2) = [(''red'', 3)] \<and>
   fst (fire_transition (fired (scenario_net 0) 3 3) 3) = Returned False \<and>
   place_heap (fired (scenario_net 0) 3 4) = place_heap (fired (scenario_net 0) 3 3)"
  by (simp add: scenario_net_explicit fired_def eval_nat_numeral engine_defs scenario_explicit_def)

section \<open>What a firing moves\<close>





section \<open>Two-phase firing\<close>





section \<open>Inputs on which the engine departs from its contract\<close>

lemma double_arc_net_explicit: "double_arc_net = double_explicit"
  by (simp add: double_arc_net_def double_nodes_def double_explicit_def engine_defs fun_eq_iff)

lemma two_color_net_explicit: "two_color_net = two_color_explicit"
  by (simp add: two_color_net_def two_color_explicit_def engine_defs fun_eq_iff)

text \<open>
  Claim C1 (non-negative markings) fails on the code. The guard of a firing is
  \<^verbatim>\<open>arc_ready\<close>, which tests each incoming arc alone and answers \<open>True\<close> at the first
  colour that is covered. With two arcs from the same place holding one token, and with a
  two-colour annotation of which one colour is covered, \<^verbatim>\<open>fire_transition\<close> returns
  \<open>True\<close> and leaves a count of \<open>-1\<close>.
\<close>

theorem marking_goes_negative:
  "fst (fire_transition double_arc_net 2) = Returned True \<and>
   marking (place_heap double_arc_net 1) = [(''0'', 1)] \<and>
   marking (place_heap (snd (fire_transition double_arc_net 2)) 1) = [(''0'', - 1)] \<and>
   fst (fire_transition two_color_net 2) = Returned True \<and>
   marking (place_heap two_color_net 1) = [(''red'', 1), (''blue'', 0)] \<and>
   marking (place_heap (snd (fire_transition two_color_net 2)) 1) = [(''red'', 0), (''blue'', - 1)]"
  by (simp add: double_arc_net_explicit two_color_net_explicit double_explicit_def
      two_color_explicit_def engine_defs)

text \<open>
  Claim C4 (no stale status after a mutation) fails for \<^verbatim>\<open>on_fire_transition\<close>, which
  consumes the input tokens and returns without the recomputation that
  \<^verbatim>\<open>fire_transition\<close> runs: here \<open>P1\<close> is left empty, the cached status of \<open>T1\<close> is
  still \<open>Ready\<close>, and a fresh check answers \<open>False\<close>.
\<close>

theorem on_fire_leaves_stale_status:
  "fst (on_fire_transition one_token_net 3) = Returned True \<and>
   marking (place_heap (snd (on_fire_transition one_token_net 3)) 1) = [(''red'', 0)] \<and>
   status (trans_heap (snd (on_fire_transition one_token_net 3)) 3) = Ready \<and>
   fst (transition_ready_check (snd (on_fire_transition one_token_net 3)) 3) = Returned False"
  by (simp add: one_token_net_def scenario_net_explicit scenario_explicit_def engine_defs)


text \<open>
  Claim C9 (an arc between two places is not registered, nothing changes, nothing is raised)
  fails: \<^verbatim>\<open>add_arc\<close> does not test whether the constructor succeeded. The half-built arc
  enters \<^verbatim>\<open>arcs\<close> and the \<^verbatim>\<open>outs\<close>, \<^verbatim>\<open>out_arcs\<close>, \<^verbatim>\<open>ins\<close>, \<^verbatim>\<open>in_arcs\<close> of
  the two places, and reading its \<^verbatim>\<open>name\<close> then raises \<^verbatim>\<open>AttributeError\<close>.
\<close>

theorem add_arc_between_places:
  "fst (add_arc (scenario_nodes 0) 4 (PlaceRef 1) (PlaceRef 2)) = Raised AttributeError \<and>
   arcs (scenario_nodes 0) = [] \<and>
   arcs (snd (add_arc (scenario_nodes 0) 4 (PlaceRef 1) (PlaceRef 2))) = [4] \<and>
   p_outs (place_heap (scenario_nodes 0) 1) = [] \<and>
   p_outs (place_heap (snd (add_arc (scenario_nodes 0) 4 (PlaceRef 1) (PlaceRef 2))) 1) =
     [(2, PlaceRef 2)] \<and>
   p_out_arcs (place_heap (snd (add_arc (scenario_nodes 0) 4 (PlaceRef 1) (PlaceRef 2))) 1) = [4] \<and>
   p_ins (place_heap (snd (add_arc (scenario_nodes 0) 4 (PlaceRef 1) (PlaceRef 2))) 2) =
     [(1, PlaceRef 1)] \<and>
   p_in_arcs (place_heap (snd (add_arc (scenario_nodes 0) 4 (PlaceRef 1) (PlaceRef 2))) 2) = [4]"
  by (simp add: engine_defs)


end
